theory Spec2Isabelle
  imports Main
begin

section \<open>Shared conventions\<close>

text \<open>
  The components are view functions over props and local state. A render is modelled as
  a function from props and state to a description of the rendered elements; an event
  handler as a function from the state to the new state together with the calls it makes
  to the callbacks and store actions it was given, in the order it makes them.

  The localisation function \<open>lang\<close> is an external collaborator: it is a parameter of
  every definition that calls it. It takes the key and, where the source passes one, the
  numeric argument of the format (\<open>lang('%1$d Selected', n)\<close>).
\<close>

type_synonym lang_fn = "string \<Rightarrow> nat option \<Rightarrow> string"

text \<open>
  JavaScript truthiness of an optional string: \<open>undefined\<close> and the empty string are
  falsy. \<open>a || b\<close> on strings yields \<open>a\<close> when it is truthy and \<open>b\<close> otherwise.
\<close>

definition truthy :: "string option \<Rightarrow> bool" where
  "truthy s = (case s of None \<Rightarrow> False | Some t \<Rightarrow> t \<noteq> [])"

definition js_or :: "string option \<Rightarrow> string option \<Rightarrow> string option" where
  "js_or a b = (if truthy a then a else b)"

text \<open>\<open>a || b\<close> where \<open>b\<close> is a string.\<close>

definition js_or_str :: "string option \<Rightarrow> string \<Rightarrow> string" where
  "js_or_str a b = (case a of None \<Rightarrow> b | Some s \<Rightarrow> if s \<noteq> [] then s else b)"

text \<open>
  An effect hook \<open>useEffect(fn, deps)\<close> runs \<open>fn\<close> after the first render and after each
  later render in which some dependency differs from its value at the previous render.
  \<open>useLastCallback\<close> returns a reference that never changes between renders, so a
  callback made with it never causes an effect to run again.
\<close>

definition useEffect_runs :: "'d option \<Rightarrow> 'd \<Rightarrow> bool" where
  "useEffect_runs prev deps = (case prev of None \<Rightarrow> True | Some d \<Rightarrow> d \<noteq> deps)"


section \<open>Hardware wallet selector (LedgerSelectWallets)\<close>

text \<open>
  A discovered candidate (\<open>LedgerWalletInfo\<close>): the fields the component reads. The
  index is the derivation index of the wallet, a natural number.
\<close>

record LedgerWalletInfo =
  address :: string
  balance :: string
  index :: nat

text \<open>Of an already linked \<open>Account\<close> the component reads the address only.\<close>

record Account =
  accountAddress :: string

text \<open>What the component calls: the store action and the two callbacks of its props.\<close>

datatype ledger_call =
    AfterSelectHardwareWallets "nat list"
  | OnClose
  | OnCancel

text \<open>
  \<open>handleAccountToggle\<close>: \<open>includes\<close>, then \<open>filter((id) => id !== index)\<close> or
  \<open>concat([index])\<close>. The local state is the list \<open>selectedAccountIndices\<close>, created
  empty by \<open>useState<number[]>([])\<close>.
\<close>

definition initialSelectedAccountIndices :: "nat list" where
  "initialSelectedAccountIndices = []"

definition handleAccountToggle :: "nat \<Rightarrow> nat list \<Rightarrow> nat list" where
  "handleAccountToggle i selectedAccountIndices =
     (if i \<in> set selectedAccountIndices
      then filter (\<lambda>id. id \<noteq> i) selectedAccountIndices
      else selectedAccountIndices @ [i])"

text \<open>A sequence of toggles, each on the state the previous one left.\<close>

definition toggles :: "nat list \<Rightarrow> nat list \<Rightarrow> nat list" where
  "toggles is selectedAccountIndices = foldl (\<lambda>s i. handleAccountToggle i s) selectedAccountIndices is"


text \<open>
  \<open>alreadyConnectedList\<close>: \<open>Object.values(accounts ?? []).map(({ address }) => address)\<close>.
  The record of accounts is a list of pairs of an account id and the account.
\<close>

definition alreadyConnectedList :: "(string \<times> Account) list option \<Rightarrow> string list" where
  "alreadyConnectedList accounts =
     map (\<lambda>(accountId, a). accountAddress a) (case accounts of None \<Rightarrow> [] | Some m \<Rightarrow> m)"

text \<open>
  One rendered entry: its key, whether it carries the class \<open>account_current\<close>, the
  index its click handler toggles (\<open>None\<close> when \<open>onClick\<close> is \<open>undefined\<close>), and whether
  its check mark carries \<open>accountCheckMark_active\<close>.
\<close>

record account_view =
  entryKey :: string
  isCurrent :: bool
  onClickToggle :: "nat option"
  checkMarkActive :: bool

definition renderAccount :: "nat list \<Rightarrow> string \<Rightarrow> string \<Rightarrow> nat \<Rightarrow> bool \<Rightarrow> account_view" where
  "renderAccount selectedAccountIndices addr bal i isConnected =
     (let isActiveAccount = (isConnected \<or> i \<in> set selectedAccountIndices)
      in \<lparr> entryKey = addr,
           isCurrent = isActiveAccount,
           onClickToggle = (if isConnected then None else Some i),
           checkMarkActive = isActiveAccount \<rparr>)"

definition renderAccounts ::
  "LedgerWalletInfo list option \<Rightarrow> (string \<times> Account) list option \<Rightarrow> nat list \<Rightarrow> account_view list" where
  "renderAccounts hardwareWallets accounts selectedAccountIndices =
     map (\<lambda>w. renderAccount selectedAccountIndices (address w) (balance w) (index w)
                 (address w \<in> set (alreadyConnectedList accounts)))
         (case hardwareWallets of None \<Rightarrow> [] | Some l \<Rightarrow> l)"

text \<open>A click on a rendered entry runs its handler when it has one, and nothing otherwise.\<close>

definition clickAccount :: "account_view \<Rightarrow> nat list \<Rightarrow> nat list" where
  "clickAccount v selectedAccountIndices =
     (case onClickToggle v of
        None \<Rightarrow> selectedAccountIndices
      | Some i \<Rightarrow> handleAccountToggle i selectedAccountIndices)"

text \<open>
  A sequence of clicks, each given by the position of the clicked entry in the rendered
  list; the list is rendered again after every click. A position beyond the list hits no
  entry.
\<close>

fun clickAccounts ::
  "LedgerWalletInfo list option \<Rightarrow> (string \<times> Account) list option \<Rightarrow> nat list \<Rightarrow> nat list \<Rightarrow> nat list" where
  "clickAccounts hardwareWallets accounts [] sel = sel"
| "clickAccounts hardwareWallets accounts (k # ks) sel =
     (let vs = renderAccounts hardwareWallets accounts sel
      in clickAccounts hardwareWallets accounts ks
           (if k < length vs then clickAccount (vs ! k) sel else sel))"

text \<open>
  The header title and the two buttons.
  \<open>areAccountsSelected = !selectedAccountIndices.length\<close> is the Add button's
  \<open>isDisabled\<close>.
\<close>

definition ledgerTitle :: "lang_fn \<Rightarrow> nat list \<Rightarrow> string" where
  "ledgerTitle lang selectedAccountIndices =
     (if length selectedAccountIndices \<noteq> 0
      then lang ''%1$d Selected'' (Some (length selectedAccountIndices))
      else lang ''Select Ledger Wallets'' None)"






section \<open>Password / PIN entry form (PasswordForm)\<close>

subsection \<open>Props, environment and local state\<close>

datatype OperationType = Op_transfer | Op_staking | Op_unstaking | Op_swap

text \<open>
  Modelled from the spec: the declaration of \<open>AuthConfig\<close> (\<open>util/authApi/types\<close>) is
  not among the sources. "Auth configuration: tagged variant over {password-only,
  platform-biometrics, native-biometrics}". The component reads the kind only, and
  compares it with \<open>'password'\<close> and with \<open>'native-biometrics'\<close>.
\<close>

datatype AuthConfig = Password_only | Platform_biometrics | Native_biometrics

text \<open>
  \<open>OwnProps\<close>. An optional boolean is read for its truthiness only, so \<open>undefined\<close> is
  \<open>False\<close>; an optional string keeps \<open>undefined\<close> as \<open>None\<close>. The prop \<open>help\<close> is named
  \<open>helpText\<close> here; the props that only style the form (\<open>stickerSize\<close>,
  \<open>containerClassName\<close>) and \<open>children\<close> carry no behaviour and are left out. The
  callbacks \<open>onCancel\<close>, \<open>onUpdate\<close> and \<open>onSubmit\<close> are required props; what they
  do is outside the component: a call to one of them is recorded as a \<open>pf_call\<close>.
  Where the source makes the call inside a \<open>try\<close> (\<open>onSubmit\<close> in \<open>handleBiometrics\<close>),
  whether the call returns or throws is a parameter of the handler.
\<close>

record OwnProps =
  isActive :: bool
  isLoading :: bool
  operationType :: "OperationType option"
  cancelLabel :: "string option"
  submitLabel :: string
  placeholder :: "string option"
  error :: "string option"
  helpText :: "string option"
  withCloseButton :: bool

record StateProps =
  isPasswordNumeric :: bool
  isBiometricAuthEnabled :: bool
  isNativeBiometricAuthEnabled :: bool
  authConfig :: "AuthConfig option"

record GlobalSettings =
  settingsIsPasswordNumeric :: bool
  settingsAuthConfig :: "AuthConfig option"

text \<open>
  The selector given to \<open>withGlobal\<close>:
  \<open>isBiometricAuthEnabled = !!authConfig && authConfig.kind !== 'password'\<close>,
  \<open>isNativeBiometricAuthEnabled = !!authConfig && authConfig.kind === 'native-biometrics'\<close>.
\<close>

definition mapStateToProps :: "GlobalSettings \<Rightarrow> StateProps" where
  "mapStateToProps settings =
     \<lparr> isPasswordNumeric = settingsIsPasswordNumeric settings,
       isBiometricAuthEnabled =
         (case settingsAuthConfig settings of None \<Rightarrow> False | Some k \<Rightarrow> k \<noteq> Password_only),
       isNativeBiometricAuthEnabled =
         (case settingsAuthConfig settings of None \<Rightarrow> False | Some k \<Rightarrow> k = Native_biometrics),
       authConfig = settingsAuthConfig settings \<rparr>"

text \<open>
  What the component reads from its environment: the capability probes
  (\<open>util/capacitor\<close>), the screen classification of \<open>useDeviceScreen\<close>, and the
  constants \<open>CAN_DELEGATE_BOTTOM_SHEET\<close> (\<open>util/windowEnvironment\<close>) and \<open>PIN_LENGTH\<close>
  (\<open>config\<close>). None of their declarations is among the sources, so each is a parameter.
  Of \<open>CAN_DELEGATE_BOTTOM_SHEET\<close> the spec says that it holds when the form runs inside
  a delegated secondary surface.
\<close>

record Env =
  getIsNativeBiometricAuthSupported :: bool
  getIsFaceIdAvailable :: bool
  getIsTouchIdAvailable :: bool
  isSmallHeight :: bool
  CAN_DELEGATE_BOTTOM_SHEET :: bool
  PIN_LENGTH :: nat

definition APPEAR_ANIMATION_DURATION_MS :: nat where
  "APPEAR_ANIMATION_DURATION_MS = 300"

text \<open>Local state: \<open>useState<string>('')\<close> twice.\<close>

record FormState =
  password :: string
  localError :: string

definition initialFormState :: FormState where
  "initialFormState = \<lparr> password = [], localError = [] \<rparr>"

definition isSubmitDisabled :: "FormState \<Rightarrow> bool" where
  "isSubmitDisabled st = (length (password st) = 0)"

subsection \<open>Handlers and effects\<close>

text \<open>
  The functions a rendered element can be given as a handler, and the calls a handler
  makes to the callbacks of the props.
\<close>

datatype pf_callback =
    HandleBiometrics
  | HandleClearError
  | HandleInput
  | HandleSubmit
  | SetPassword
  | Prop_onSubmit
  | Prop_onCancel

datatype pf_call =
    Call_onSubmit string
  | Call_onUpdate

text \<open>
  The first effect (dependencies \<open>[isActive]\<close>): both pieces of state are reset when the
  form is active.
\<close>

definition activationEffect :: "OwnProps \<Rightarrow> FormState \<Rightarrow> FormState" where
  "activationEffect own st =
     (if isActive own then st\<lparr> localError := [], password := [] \<rparr> else st)"

text \<open>
  What a render with new props does to the local state: of the effects of the component
  only the first one writes the state when it runs, and it runs when \<open>isActive\<close> differs
  from its value at the previous render.
\<close>

definition propsUpdate :: "OwnProps \<Rightarrow> OwnProps \<Rightarrow> FormState \<Rightarrow> FormState" where
  "propsUpdate prev new st =
     (if useEffect_runs (Some (isActive prev)) (isActive new)
      then activationEffect new st else st)"

text \<open>
  A value that was thrown and is caught as \<open>err: any\<close>: either \<open>undefined\<close> or \<open>null\<close>,
  of which no property can be read, or a value of which \<open>err.message\<close> can be read, with
  what is read there (\<open>None\<close> when the property is \<open>undefined\<close>). The outcome of
  \<open>await authApi.getPassword(authConfig)\<close> is either a thrown value (the promise was
  rejected) or the value the promise resolved to, a string or \<open>undefined\<close>.
\<close>

datatype js_thrown = Nullish | Error "string option"

type_synonym getPassword_outcome = "js_thrown + string option"

text \<open>
  Reading \<open>err.message\<close> of \<open>undefined\<close> or \<open>null\<close> throws a \<open>TypeError\<close>, itself an error
  object with a message (the text is the engine's).
\<close>

definition readMessageTypeError :: js_thrown where
  "readMessageTypeError = Error (Some ''Cannot read properties of undefined (reading message)'')"

text \<open>
  \<open>handleBiometrics\<close>, in two parts. The first is the body of the \<open>try\<close>: the awaited
  call, then \<open>setLocalError('Declined')\<close> or the call of \<open>onSubmit\<close>. The callback is a
  parameter: \<open>onSubmit s\<close> is \<open>None\<close> when the call returns and the thrown value when it
  throws. The body ends with the new state and the calls made (\<open>Inr\<close>), or with a thrown
  value and the calls made before it (\<open>Inl\<close>); it writes no state before it throws.
\<close>

definition handleBiometrics_try ::
  "getPassword_outcome \<Rightarrow> (string \<Rightarrow> js_thrown option) \<Rightarrow> FormState
     \<Rightarrow> (js_thrown \<times> pf_call list) + (FormState \<times> pf_call list)" where
  "handleBiometrics_try outcome onSubmit st =
     (case outcome of
        Inl err \<Rightarrow> Inl (err, [])
      | Inr biometricPassword \<Rightarrow>
          (if \<not> truthy biometricPassword
           then Inr (st\<lparr> localError := ''Declined'' \<rparr>, [])
           else (let s = (case biometricPassword of Some s \<Rightarrow> s | None \<Rightarrow> [])
                 in case onSubmit s of
                      None \<Rightarrow> Inr (st, [Call_onSubmit s])
                    | Some err \<Rightarrow> Inl (err, [Call_onSubmit s]))))"

text \<open>
  The second part is the handler with its \<open>catch\<close>:
  \<open>setLocalError(err.message || lang('Something went wrong'))\<close>. Of a nullish \<open>err\<close> the
  message cannot be read: the \<open>TypeError\<close> leaves the handler (the promise the
  \<open>async\<close> function returned is rejected) and the state is not written. The result is
  the new state and the calls made (\<open>Inr\<close>), or the error that leaves the handler and the
  calls made (\<open>Inl\<close>).
\<close>

definition handleBiometrics ::
  "lang_fn \<Rightarrow> getPassword_outcome \<Rightarrow> (string \<Rightarrow> js_thrown option) \<Rightarrow> FormState
     \<Rightarrow> (js_thrown \<times> pf_call list) + (FormState \<times> pf_call list)" where
  "handleBiometrics lang outcome onSubmit st =
     (case handleBiometrics_try outcome onSubmit st of
        Inr r \<Rightarrow> Inr r
      | Inl (err, calls) \<Rightarrow>
          (case err of
             Nullish \<Rightarrow> Inl (readMessageTypeError, calls)
           | Error msg \<Rightarrow>
               Inr (st\<lparr> localError := js_or_str msg (lang ''Something went wrong'' None) \<rparr>,
                    calls)))"

definition handleClearError :: "FormState \<Rightarrow> FormState \<times> pf_call list" where
  "handleClearError st = (st\<lparr> localError := [] \<rparr>, [Call_onUpdate])"

definition handleInput :: "OwnProps \<Rightarrow> string \<Rightarrow> FormState \<Rightarrow> FormState \<times> pf_call list" where
  "handleInput own v st =
     (st\<lparr> password := v \<rparr>, if truthy (error own) then [Call_onUpdate] else [])"

definition handleSubmit :: "FormState \<Rightarrow> FormState \<times> pf_call list" where
  "handleSubmit st = (st, [Call_onSubmit (password st)])"

text \<open>
  The second effect (dependencies \<open>[handleBiometrics, isActive, isBiometricAuthEnabled]\<close>):
  nothing, or the asynchronous block that pauses and then calls \<open>handleBiometrics\<close>.
\<close>

datatype async_step = Pause nat | Invoke pf_callback

definition autoTriggerEffect :: "Env \<Rightarrow> OwnProps \<Rightarrow> StateProps \<Rightarrow> async_step list" where
  "autoTriggerEffect env own sp =
     (if CAN_DELEGATE_BOTTOM_SHEET env \<or> \<not> isActive own \<or> \<not> isBiometricAuthEnabled sp
      then []
      else [Pause APPEAR_ANIMATION_DURATION_MS, Invoke HandleBiometrics])"

text \<open>
  The runs of the second effect over a sequence of renders, the first of them the mount.
  \<open>handleBiometrics\<close> comes from \<open>useLastCallback\<close>, so the dependencies that can differ
  between two renders are \<open>isActive\<close> and \<open>isBiometricAuthEnabled\<close>.
\<close>

fun autoTriggerRuns ::
  "Env \<Rightarrow> (bool \<times> bool) option \<Rightarrow> (OwnProps \<times> StateProps) list \<Rightarrow> async_step list list" where
  "autoTriggerRuns env prev [] = []"
| "autoTriggerRuns env prev ((own, sp) # renders) =
     (if useEffect_runs prev (isActive own, isBiometricAuthEnabled sp)
      then [autoTriggerEffect env own sp] else [])
     @ autoTriggerRuns env (Some (isActive own, isBiometricAuthEnabled sp)) renders"

text \<open>
  The third effect (dependencies \<open>[handleSubmit, isSubmitDisabled]\<close>): the keyboard
  listener it registers, \<open>captureKeyboardListeners({ onEnter: handleSubmit })\<close>, or none.
\<close>

definition enterKeyEffect :: "FormState \<Rightarrow> pf_callback option" where
  "enterKeyEffect st = (if isSubmitDisabled st then None else Some HandleSubmit)"

subsection \<open>The rendered elements\<close>

record PinPadProps =
  pinTitle :: string
  pinTypeIsError :: bool
  pinLength :: nat
  pinValue :: string
  onBiometricsClick :: "pf_callback option"
  pinOnChange :: pf_callback
  onClearError :: pf_callback
  pinOnSubmit :: pf_callback

record InputProps =
  inputModeNumeric :: bool
  inputError :: string
  inputPlaceholder :: "string option"
  inputValue :: string
  onInput :: pf_callback
  maxLength :: "nat option"

record ButtonProps =
  buttonLabel :: string
  isRound :: bool
  isPrimary :: bool
  buttonIsLoading :: bool
  isDisabled :: bool
  onClick :: "pf_callback option"

datatype element =
    Button ButtonProps
  | AnimatedIconWithPreview bool
  | TitleDiv string
  | Children
  | PinPad PinPadProps
  | VerifyDiv string
  | Input InputProps
  | ErrorDiv string
  | LabelDiv string

fun getPinPadTitle :: "OperationType option \<Rightarrow> string" where
  "getPinPadTitle (Some Op_transfer) = ''Confirm Transaction''"
| "getPinPadTitle (Some Op_staking) = ''Confirm Staking''"
| "getPinPadTitle (Some Op_unstaking) = ''Confirm Unstaking''"
| "getPinPadTitle (Some Op_swap) = ''Confirm Swap''"
| "getPinPadTitle None = ''Confirm Operation''"

text \<open>
  The branch taken when \<open>getIsNativeBiometricAuthSupported()\<close> holds. In
  \<open>localError || error!\<close> the external error is read only when the local one is empty;
  under \<open>hasError\<close> it is a string then.
\<close>

definition renderPinPad :: "lang_fn \<Rightarrow> Env \<Rightarrow> OwnProps \<Rightarrow> StateProps \<Rightarrow> FormState \<Rightarrow> element list" where
  "renderPinPad lang env own sp st =
     (let hasError = truthy (js_or (Some (localError st)) (error own));
          title = getPinPadTitle (operationType own);
          actionName = lang
            (if \<not> isNativeBiometricAuthEnabled sp then ''Enter code''
             else if getIsFaceIdAvailable env then ''Enter code or use Face ID''
             else if getIsTouchIdAvailable env then ''Enter code or use Touch ID''
             else ''Enter code or use biometrics'') None
      in (if withCloseButton own
          then [Button \<lparr> buttonLabel = lang ''Close'' None, isRound = True, isPrimary = False,
                         buttonIsLoading = False, isDisabled = False,
                         onClick = Some Prop_onCancel \<rparr>]
          else [])
         @ [AnimatedIconWithPreview (isActive own)]
         @ (if \<not> isSmallHeight env then [TitleDiv (lang title None)] else [])
         @ [Children,
            PinPad \<lparr> pinTitle = lang
                       (if hasError
                        then js_or_str (Some (localError st))
                               (case error own of Some e \<Rightarrow> e | None \<Rightarrow> [])
                        else if isSmallHeight env then title else actionName) None,
                     pinTypeIsError = hasError,
                     pinLength = PIN_LENGTH env,
                     pinValue = password st,
                     onBiometricsClick =
                       (if isNativeBiometricAuthEnabled sp then Some HandleBiometrics else None),
                     pinOnChange = SetPassword,
                     onClearError = HandleClearError,
                     pinOnSubmit = Prop_onSubmit \<rparr>])"

text \<open>
  The other branch: the sticker, the prompt or the text field, the labels, the buttons.
  \<open>onCancel\<close> is a required prop, so the cancel button is always there.
\<close>

definition renderPasswordField :: "lang_fn \<Rightarrow> Env \<Rightarrow> OwnProps \<Rightarrow> StateProps \<Rightarrow> FormState \<Rightarrow> element list" where
  "renderPasswordField lang env own sp st =
     [AnimatedIconWithPreview (isActive own), Children]
     @ [if isBiometricAuthEnabled sp
        then VerifyDiv (lang (if operationType own = Some Op_transfer
                              then ''Please confirm transaction using biometrics''
                              else ''Please confirm operation using biometrics'') None)
        else Input \<lparr> inputModeNumeric = isPasswordNumeric sp,
                     inputError = (if truthy (error own)
                                   then lang (case error own of Some e \<Rightarrow> e | None \<Rightarrow> []) None
                                   else localError st),
                     inputPlaceholder = placeholder own,
                     inputValue = password st,
                     onInput = HandleInput,
                     maxLength = (if isPasswordNumeric sp then Some (PIN_LENGTH env) else None) \<rparr>]
     @ (if localError st \<noteq> [] then [ErrorDiv (lang (localError st) None)] else [])
     @ (if truthy (helpText own) \<and> \<not> truthy (error own)
        then [LabelDiv (case helpText own of Some h \<Rightarrow> h | None \<Rightarrow> [])] else [])
     @ [Button \<lparr> buttonLabel = js_or_str (cancelLabel own) (lang ''Cancel'' None),
                  isRound = False, isPrimary = False,
                  buttonIsLoading = (isLoading own \<and> isBiometricAuthEnabled sp),
                  isDisabled = (isLoading own \<and> \<not> isBiometricAuthEnabled sp),
                  onClick = (if isBiometricAuthEnabled sp \<and> isLoading own
                             then None else Some Prop_onCancel) \<rparr>]
     @ (if \<not> isBiometricAuthEnabled sp
        then [Button \<lparr> buttonLabel = js_or_str (Some (submitLabel own)) (lang ''Send'' None),
                       isRound = False, isPrimary = True,
                       buttonIsLoading = isLoading own,
                       isDisabled = isSubmitDisabled st,
                       onClick = (if \<not> isLoading own then Some HandleSubmit else None) \<rparr>]
        else [])"

definition PasswordForm :: "lang_fn \<Rightarrow> Env \<Rightarrow> OwnProps \<Rightarrow> StateProps \<Rightarrow> FormState \<Rightarrow> element list" where
  "PasswordForm lang env own sp st =
     (if getIsNativeBiometricAuthSupported env
      then renderPinPad lang env own sp st
      else renderPasswordField lang env own sp st)"

text \<open>Reading a rendered list: the PIN pads, text fields, prompts and primary buttons in it.\<close>

fun pinPadsOf :: "element list \<Rightarrow> PinPadProps list" where
  "pinPadsOf [] = []"
| "pinPadsOf (PinPad p # es) = p # pinPadsOf es"
| "pinPadsOf (e # es) = pinPadsOf es"

fun inputsOf :: "element list \<Rightarrow> InputProps list" where
  "inputsOf [] = []"
| "inputsOf (Input p # es) = p # inputsOf es"
| "inputsOf (e # es) = inputsOf es"

fun verifyDivsOf :: "element list \<Rightarrow> string list" where
  "verifyDivsOf [] = []"
| "verifyDivsOf (VerifyDiv t # es) = t # verifyDivsOf es"
| "verifyDivsOf (e # es) = verifyDivsOf es"

fun primaryButtonsOf :: "element list \<Rightarrow> ButtonProps list" where
  "primaryButtonsOf [] = []"
| "primaryButtonsOf (Button b # es) =
     (if isPrimary b then b # primaryButtonsOf es else primaryButtonsOf es)"
| "primaryButtonsOf (e # es) = primaryButtonsOf es"


section \<open>Dashboard screen (Main): the swipe on the portrait container\<close>

text \<open>
  Modelled from the spec: the enumerations \<open>SwipeDirection\<close> (\<open>util/captureEvents\<close>) and
  \<open>ContentTab\<close> (\<open>global/types\<close>) are not among the sources; the component names
  \<open>SwipeDirection.Right\<close>, \<open>ContentTab.Assets\<close> and \<open>ContentTab.Activity\<close>, and the spec
  the direction left.
\<close>

datatype SwipeDirection = Swipe_Up | Swipe_Down | Swipe_Left | Swipe_Right

datatype ContentTab = Assets | Activity

text \<open>The store actions the handlers dispatch, with their payloads.\<close>

datatype main_action =
    SelectToken "string option"
  | SetActiveContentTab ContentTab
  | SetSwapTokenOut string
  | ChangeTransferToken string

text \<open>
  What the swipe effect reads: the constant \<open>IS_TOUCH_ENV\<close>, \<open>isPortrait\<close>, whether
  \<open>portraitContainerRef.current\<close> is set, and the slug of the focused token.
\<close>

record MainView =
  IS_TOUCH_ENV :: bool
  isPortrait :: bool
  portraitContainerMounted :: bool
  currentTokenSlug :: "string option"

definition handleTokenCardClose :: "main_action list" where
  "handleTokenCardClose = [SelectToken None, SetActiveContentTab Assets]"

text \<open>The \<open>onSwipe\<close> listener: the actions it dispatches and the value it returns.\<close>

definition onSwipe :: "SwipeDirection \<Rightarrow> main_action list \<times> bool" where
  "onSwipe direction =
     (if direction = Swipe_Right then (handleTokenCardClose, True) else ([], False))"

text \<open>The effect registers the listener, or returns early and registers nothing.\<close>

definition swipeEffect :: "MainView \<Rightarrow> (SwipeDirection \<Rightarrow> main_action list \<times> bool) option" where
  "swipeEffect v =
     (if \<not> IS_TOUCH_ENV v \<or> \<not> isPortrait v \<or> \<not> portraitContainerMounted v
         \<or> \<not> truthy (currentTokenSlug v)
      then None else Some onSwipe)"

text \<open>
  A swipe on the container reaches the listener when one is registered. (Swipes that
  start inside a \<open>.token-card\<close> are excluded by \<open>captureEvents\<close> and never delivered.)
\<close>

definition deliverSwipe :: "MainView \<Rightarrow> SwipeDirection \<Rightarrow> (main_action list \<times> bool) option" where
  "deliverSwipe v direction =
     (case swipeEffect v of None \<Rightarrow> None | Some listener \<Rightarrow> Some (listener direction))"


section \<open>Example inputs\<close>

text \<open>
  Concrete inputs on which the properties below are evaluated: a localisation that
  returns every key as it is, an environment without native biometric support, the props
  of an active form confirming a transfer, the state props the selector derives from a
  password-only and from a native-biometrics configuration, a form state with a password
  typed in, a submit callback that returns and one that throws an error object, and a
  portrait dashboard on a touch device with a token focused.
\<close>

definition langKey :: lang_fn where
  "langKey key arg = key"

definition sampleEnv :: Env where
  "sampleEnv =
     \<lparr> getIsNativeBiometricAuthSupported = False, getIsFaceIdAvailable = False,
       getIsTouchIdAvailable = False, isSmallHeight = False,
       CAN_DELEGATE_BOTTOM_SHEET = False, PIN_LENGTH = 4 \<rparr>"

definition sampleOwnProps :: OwnProps where
  "sampleOwnProps =
     \<lparr> isActive = True, isLoading = False, operationType = Some Op_transfer,
       cancelLabel = None, submitLabel = ''Send'', placeholder = None,
       error = None, helpText = None, withCloseButton = False \<rparr>"

definition sampleStateProps :: StateProps where
  "sampleStateProps = mapStateToProps
     \<lparr> settingsIsPasswordNumeric = False, settingsAuthConfig = Some Password_only \<rparr>"

definition biometricStateProps :: StateProps where
  "biometricStateProps = mapStateToProps
     \<lparr> settingsIsPasswordNumeric = False, settingsAuthConfig = Some Native_biometrics \<rparr>"

definition sampleFormState :: FormState where
  "sampleFormState = \<lparr> password = ''hunter2'', localError = [] \<rparr>"

definition onSubmitReturns :: "string \<Rightarrow> js_thrown option" where
  "onSubmitReturns s = None"

definition onSubmitThrows :: "string \<Rightarrow> js_thrown option" where
  "onSubmitThrows s = Some (Error (Some ''Network error''))"

definition sampleMainView :: MainView where
  "sampleMainView =
     \<lparr> IS_TOUCH_ENV = True, isPortrait = True, portraitContainerMounted = True,
       currentTokenSlug = Some ''toncoin'' \<rparr>"


section \<open>Hardware wallet selector: properties\<close>

lemma set_handleAccountToggle:
  "set (handleAccountToggle i sel) = (if i \<in> set sel then set sel - {i} else insert i (set sel))"
  by (auto simp: handleAccountToggle_def)

lemma distinct_handleAccountToggle:
  "distinct sel \<Longrightarrow> distinct (handleAccountToggle i sel)"
  by (simp add: handleAccountToggle_def)

lemma distinct_toggles:
  "distinct sel \<Longrightarrow> distinct (toggles is sel)"
  unfolding toggles_def
  by (induction "is" arbitrary: sel) (simp_all add: distinct_handleAccountToggle)

text \<open>
  C4. For every selection list and every index, one toggle adds the index to the
  membership when it was absent and removes it when it was present; two toggles of the
  same index in succession give back the membership there was before.
\<close>

theorem toggle_membership_involution:
  "set (handleAccountToggle i sel) = (if i \<in> set sel then set sel - {i} else insert i (set sel))
   \<and> set (handleAccountToggle i (handleAccountToggle i sel)) = set sel"
  by (auto simp: set_handleAccountToggle)

theorem toggle_membership_involution_witness:
  "set (handleAccountToggle 3 [1, 3]) = {1}
   \<and> set (handleAccountToggle 2 [1, 3]) = {1, 2, 3}
   \<and> set (handleAccountToggle 3 (handleAccountToggle 3 [1, 3])) = {1, 3}"
  using toggle_membership_involution [of 3 "[1, 3]"] toggle_membership_involution [of 2 "[1, 3]"]
  by auto

text \<open>
  C10. The selection list starts empty, and after any sequence of toggles from the empty
  list its elements are pairwise distinct, its length is the number of selected indices,
  and the header title shows that number when it is not zero.
\<close>

theorem selection_never_duplicates:
  "initialSelectedAccountIndices = []
   \<and> distinct (toggles is initialSelectedAccountIndices)
   \<and> length (toggles is initialSelectedAccountIndices)
       = card (set (toggles is initialSelectedAccountIndices))
   \<and> ledgerTitle lang (toggles is initialSelectedAccountIndices)
       = (if toggles is initialSelectedAccountIndices = []
          then lang ''Select Ledger Wallets'' None
          else lang ''%1$d Selected'' (Some (card (set (toggles is initialSelectedAccountIndices)))))"
proof -
  have d: "distinct (toggles is initialSelectedAccountIndices)"
    by (rule distinct_toggles) (simp add: initialSelectedAccountIndices_def)
  then have l: "length (toggles is initialSelectedAccountIndices)
      = card (set (toggles is initialSelectedAccountIndices))"
    by (simp add: distinct_card)
  show ?thesis
    using d l by (simp add: ledgerTitle_def initialSelectedAccountIndices_def)
qed

theorem selection_never_duplicates_witness:
  "toggles [1, 3, 1, 1, 5, 3] initialSelectedAccountIndices = [1, 5]
   \<and> distinct (toggles [1, 3, 1, 1, 5, 3] initialSelectedAccountIndices)
   \<and> card (set (toggles [1, 3, 1, 1, 5, 3] initialSelectedAccountIndices)) = 2
   \<and> ledgerTitle langKey (toggles [1, 3, 1, 1, 5, 3] initialSelectedAccountIndices)
       = ''%1$d Selected''"
proof -
  have e: "toggles [1, 3, 1, 1, 5, 3] initialSelectedAccountIndices = [1, 5]"
    by (simp add: toggles_def handleAccountToggle_def initialSelectedAccountIndices_def)
  have "distinct [1, 5 :: nat] \<and> card (set [1, 5 :: nat]) = 2
      \<and> ledgerTitle langKey [1, 5] = ''%1$d Selected''"
    using selection_never_duplicates [of "[1, 3, 1, 1, 5, 3]" langKey]
    unfolding e by (simp add: langKey_def)
  then show ?thesis
    unfolding e by simp
qed





lemma nth_renderAccounts:
  "k < length hws \<Longrightarrow>
   renderAccounts (Some hws) accounts sel ! k
     = renderAccount sel (address (hws ! k)) (balance (hws ! k)) (index (hws ! k))
         (address (hws ! k) \<in> set (alreadyConnectedList accounts))"
  by (simp add: renderAccounts_def)

text \<open>
  C6. An entry whose address is in the already linked list has no click handler and is
  shown as active (the class \<open>account_current\<close> and the active check mark), whatever the
  selection is: a click on it leaves the selection as it was, and after any sequence of
  clicks on the entries of the list it is still rendered active and without a handler.
\<close>

theorem connected_entry_is_permanent:
  assumes "k < length hws"
    and "address (hws ! k) \<in> set (alreadyConnectedList accounts)"
  shows "onClickToggle (renderAccounts (Some hws) accounts sel ! k) = None
    \<and> isCurrent (renderAccounts (Some hws) accounts sel ! k)
    \<and> checkMarkActive (renderAccounts (Some hws) accounts sel ! k)
    \<and> clickAccount (renderAccounts (Some hws) accounts sel ! k) sel = sel
    \<and> onClickToggle
        (renderAccounts (Some hws) accounts (clickAccounts (Some hws) accounts ks sel) ! k) = None
    \<and> isCurrent
        (renderAccounts (Some hws) accounts (clickAccounts (Some hws) accounts ks sel) ! k)
    \<and> checkMarkActive
        (renderAccounts (Some hws) accounts (clickAccounts (Some hws) accounts ks sel) ! k)"
  using assms by (simp add: nth_renderAccounts renderAccount_def clickAccount_def)

theorem connected_entry_is_permanent_witness:
  "clickAccounts
     (Some [\<lparr>address = ''EQA'', balance = ''10'', index = 0\<rparr>,
            \<lparr>address = ''EQB'', balance = ''20'', index = 1\<rparr>])
     (Some [(''0-ton-mainnet'', \<lparr>accountAddress = ''EQA''\<rparr>)]) [0, 1, 0] [0] = [0, 1]
   \<and> isCurrent
       (renderAccounts
          (Some [\<lparr>address = ''EQA'', balance = ''10'', index = 0\<rparr>,
                 \<lparr>address = ''EQB'', balance = ''20'', index = 1\<rparr>])
          (Some [(''0-ton-mainnet'', \<lparr>accountAddress = ''EQA''\<rparr>)]) [] ! 0)
   \<and> onClickToggle
       (renderAccounts
          (Some [\<lparr>address = ''EQA'', balance = ''10'', index = 0\<rparr>,
                 \<lparr>address = ''EQB'', balance = ''20'', index = 1\<rparr>])
          (Some [(''0-ton-mainnet'', \<lparr>accountAddress = ''EQA''\<rparr>)])
          (clickAccounts
             (Some [\<lparr>address = ''EQA'', balance = ''10'', index = 0\<rparr>,
                    \<lparr>address = ''EQB'', balance = ''20'', index = 1\<rparr>])
             (Some [(''0-ton-mainnet'', \<lparr>accountAddress = ''EQA''\<rparr>)]) [0, 1, 0] [0]) ! 0)
       = None"
proof -
  let ?hws = "[\<lparr>address = ''EQA'', balance = ''10'', index = 0\<rparr>,
               \<lparr>address = ''EQB'', balance = ''20'', index = 1\<rparr>]"
  let ?accounts = "Some [(''0-ton-mainnet'', \<lparr>accountAddress = ''EQA''\<rparr>)]"
  have h1: "0 < length ?hws" by simp
  have h2: "address (?hws ! 0) \<in> set (alreadyConnectedList ?accounts)"
    by (simp add: alreadyConnectedList_def)
  have c: "clickAccounts (Some ?hws) ?accounts [0, 1, 0] [0] = [0, 1]"
    by (simp add: renderAccounts_def renderAccount_def alreadyConnectedList_def
        clickAccount_def handleAccountToggle_def)
  show ?thesis
    using connected_entry_is_permanent [OF h1 h2, of "[]" "[0, 1, 0]"]
      connected_entry_is_permanent [OF h1 h2, of "[0]" "[0, 1, 0]"] c
    by simp
qed

section \<open>Password / PIN entry form: properties\<close>

lemma pinPadsOf_append: "pinPadsOf (xs @ ys) = pinPadsOf xs @ pinPadsOf ys"
  by (induction xs rule: pinPadsOf.induct) simp_all

lemma inputsOf_append: "inputsOf (xs @ ys) = inputsOf xs @ inputsOf ys"
  by (induction xs rule: inputsOf.induct) simp_all

lemma verifyDivsOf_append: "verifyDivsOf (xs @ ys) = verifyDivsOf xs @ verifyDivsOf ys"
  by (induction xs rule: verifyDivsOf.induct) simp_all

lemma primaryButtonsOf_append:
  "primaryButtonsOf (xs @ ys) = primaryButtonsOf xs @ primaryButtonsOf ys"
  by (induction xs rule: primaryButtonsOf.induct) simp_all

lemma entry_ui_pin_pad:
  "length (pinPadsOf (renderPinPad lang env own sp st)) = 1
   \<and> inputsOf (renderPinPad lang env own sp st) = []
   \<and> verifyDivsOf (renderPinPad lang env own sp st) = []"
  by (simp add: renderPinPad_def Let_def pinPadsOf_append inputsOf_append verifyDivsOf_append)

lemma entry_ui_password_field:
  "pinPadsOf (renderPasswordField lang env own sp st) = []
   \<and> length (inputsOf (renderPasswordField lang env own sp st))
       = (if isBiometricAuthEnabled sp then 0 else 1)
   \<and> length (verifyDivsOf (renderPasswordField lang env own sp st))
       = (if isBiometricAuthEnabled sp then 1 else 0)"
  by (simp add: renderPasswordField_def pinPadsOf_append inputsOf_append verifyDivsOf_append)

lemma inputs_password_field:
  "\<not> isBiometricAuthEnabled sp \<Longrightarrow>
   map inputError (inputsOf (renderPasswordField lang env own sp st))
     = [if truthy (error own)
        then lang (case error own of Some e \<Rightarrow> e | None \<Rightarrow> []) None
        else localError st]"
  by (simp add: renderPasswordField_def inputsOf_append)

lemma primary_button_password_field:
  "\<not> isBiometricAuthEnabled sp \<Longrightarrow>
   map isDisabled (primaryButtonsOf (renderPasswordField lang env own sp st))
     = [isSubmitDisabled st]"
  by (simp add: renderPasswordField_def primaryButtonsOf_append)

text \<open>
  C1, as amended. In the text-field branch the error given to the field is the
  localised external error whenever that one is not empty, and the local error
  otherwise. An external error does not clear the local one: a render with new props
  leaves the local error as it was, unless the form has just become active, which clears
  it whatever the error prop is.
\<close>

theorem external_error_first_in_text_field:
  "(\<not> getIsNativeBiometricAuthSupported env \<and> \<not> isBiometricAuthEnabled sp
      \<and> error own = Some e \<and> e \<noteq> []
     \<longrightarrow> map inputError (inputsOf (PasswordForm lang env own sp st)) = [lang e None])
   \<and> (\<not> getIsNativeBiometricAuthSupported env \<and> \<not> isBiometricAuthEnabled sp
      \<and> \<not> truthy (error own)
     \<longrightarrow> map inputError (inputsOf (PasswordForm lang env own sp st)) = [localError st])
   \<and> localError (propsUpdate prev new st)
       = (if isActive new \<and> \<not> isActive prev then [] else localError st)"
  by (auto simp: PasswordForm_def inputs_password_field truthy_def propsUpdate_def
      useEffect_runs_def activationEffect_def)

theorem external_error_first_in_text_field_witness:
  "map inputError (inputsOf
      (PasswordForm langKey sampleEnv (sampleOwnProps\<lparr>error := Some ''Wrong password''\<rparr>)
         sampleStateProps \<lparr>password = [], localError = ''Declined''\<rparr>)) = [''Wrong password'']
   \<and> map inputError (inputsOf
      (PasswordForm langKey sampleEnv sampleOwnProps
         sampleStateProps \<lparr>password = [], localError = ''Declined''\<rparr>)) = [''Declined'']
   \<and> localError (propsUpdate (sampleOwnProps\<lparr>isActive := False\<rparr>) sampleOwnProps
        \<lparr>password = [], localError = ''Declined''\<rparr>) = []"
proof -
  have h1: "\<not> getIsNativeBiometricAuthSupported sampleEnv"
    by (simp add: sampleEnv_def)
  have h2: "\<not> isBiometricAuthEnabled sampleStateProps"
    by (simp add: sampleStateProps_def mapStateToProps_def)
  have h3: "error sampleOwnProps = None" "isActive sampleOwnProps"
    by (simp_all add: sampleOwnProps_def)
  show ?thesis
    using external_error_first_in_text_field
        [of sampleEnv sampleStateProps "sampleOwnProps\<lparr>error := Some ''Wrong password''\<rparr>"
            "''Wrong password''" langKey "\<lparr>password = [], localError = ''Declined''\<rparr>"
            "sampleOwnProps\<lparr>isActive := False\<rparr>" sampleOwnProps]
      external_error_first_in_text_field
        [of sampleEnv sampleStateProps sampleOwnProps
            "''x''" langKey "\<lparr>password = [], localError = ''Declined''\<rparr>"
            sampleOwnProps sampleOwnProps]
      h1 h2 h3
    by (simp add: truthy_def langKey_def)
qed

text \<open>
  C1 as stated fails twice. The form is active and holds the local error "Declined" of
  a declined biometric attempt; the external error "Wrong password" arrives. The render
  with the new props leaves the local error in place, and the PIN pad's title is the
  local error, not the external one.
\<close>

theorem external_error_counterexample:
  "localError (propsUpdate sampleOwnProps (sampleOwnProps\<lparr>error := Some ''Wrong password''\<rparr>)
      \<lparr>password = [], localError = ''Declined''\<rparr>) = ''Declined''
   \<and> map pinTitle (pinPadsOf
        (PasswordForm langKey (sampleEnv\<lparr>getIsNativeBiometricAuthSupported := True\<rparr>)
           (sampleOwnProps\<lparr>error := Some ''Wrong password''\<rparr>) biometricStateProps
           \<lparr>password = [], localError = ''Declined''\<rparr>)) = [''Declined'']
   \<and> ''Declined'' \<noteq> ''Wrong password''"
  by (simp add: propsUpdate_def useEffect_runs_def sampleOwnProps_def PasswordForm_def
      sampleEnv_def renderPinPad_def Let_def truthy_def js_or_def js_or_str_def langKey_def
      pinPadsOf_append)

text \<open>
  C2, as amended. The biometric handler, for every outcome of the credential call that
  is not a nullish thrown value. A non-empty secret is passed to \<open>onSubmit\<close>, once; when
  that call returns, the state is left as it was, and when it throws an error object,
  the \<open>catch\<close> sets the local error to its message or to the localised "Something went
  wrong". An empty or undefined result sets the local error to "Declined" and calls
  nothing. A thrown error object sets the local error to its message, or to the
  localised "Something went wrong" when the message is empty or undefined, and calls
  nothing. As long as neither the credential call nor \<open>onSubmit\<close> throws a nullish
  value, the handler returns: no error leaves it.
\<close>

theorem biometrics_fetch_outcomes:
  "(s \<noteq> [] \<and> onSubmit s = None \<longrightarrow>
      handleBiometrics lang (Inr (Some s)) onSubmit st = Inr (st, [Call_onSubmit s]))
   \<and> (s \<noteq> [] \<and> onSubmit s = Some (Error msg) \<longrightarrow>
      handleBiometrics lang (Inr (Some s)) onSubmit st
        = Inr (st\<lparr>localError := js_or_str msg (lang ''Something went wrong'' None)\<rparr>,
               [Call_onSubmit s]))
   \<and> handleBiometrics lang (Inr None) onSubmit st = Inr (st\<lparr>localError := ''Declined''\<rparr>, [])
   \<and> handleBiometrics lang (Inr (Some [])) onSubmit st
        = Inr (st\<lparr>localError := ''Declined''\<rparr>, [])
   \<and> (m \<noteq> [] \<longrightarrow>
        handleBiometrics lang (Inl (Error (Some m))) onSubmit st
          = Inr (st\<lparr>localError := m\<rparr>, []))
   \<and> handleBiometrics lang (Inl (Error (Some []))) onSubmit st
        = Inr (st\<lparr>localError := lang ''Something went wrong'' None\<rparr>, [])
   \<and> handleBiometrics lang (Inl (Error None)) onSubmit st
        = Inr (st\<lparr>localError := lang ''Something went wrong'' None\<rparr>, [])
   \<and> (outcome \<noteq> Inl Nullish \<and> (\<forall>t. onSubmit t \<noteq> Some Nullish) \<longrightarrow>
        (\<exists>r. handleBiometrics lang outcome onSubmit st = Inr r))"
proof (intro conjI impI)
  assume "outcome \<noteq> Inl Nullish \<and> (\<forall>t. onSubmit t \<noteq> Some Nullish)"
  then have o: "outcome \<noteq> Inl Nullish" and t: "\<And>t. onSubmit t \<noteq> Some Nullish"
    by simp_all
  show "\<exists>r. handleBiometrics lang outcome onSubmit st = Inr r"
  proof (cases outcome)
    case (Inl err)
    with o show ?thesis
      by (cases err) (simp_all add: handleBiometrics_def handleBiometrics_try_def)
  next
    case (Inr biometricPassword)
    show ?thesis
    proof (cases "truthy biometricPassword")
      case False
      with Inr show ?thesis
        by (simp add: handleBiometrics_def handleBiometrics_try_def)
    next
      case True
      then obtain u where u: "biometricPassword = Some u"
        by (cases biometricPassword) (simp_all add: truthy_def)
      show ?thesis
      proof (cases "onSubmit u")
        case None
        with Inr True u show ?thesis
          by (simp add: handleBiometrics_def handleBiometrics_try_def)
      next
        case (Some err)
        with t [of u] obtain msg' where "err = Error msg'"
          by (cases err) simp_all
        with Some Inr True u show ?thesis
          by (simp add: handleBiometrics_def handleBiometrics_try_def)
      qed
    qed
  qed
qed (simp_all add: handleBiometrics_def handleBiometrics_try_def truthy_def js_or_str_def)

theorem biometrics_fetch_outcomes_witness:
  "handleBiometrics langKey (Inr (Some ''abc123'')) onSubmitReturns initialFormState
     = Inr (initialFormState, [Call_onSubmit ''abc123''])
   \<and> handleBiometrics langKey (Inr (Some ''abc123'')) onSubmitThrows initialFormState
     = Inr (initialFormState\<lparr>localError := ''Network error''\<rparr>, [Call_onSubmit ''abc123''])
   \<and> handleBiometrics langKey (Inl (Error (Some ''Canceled by user''))) onSubmitReturns
        initialFormState
     = Inr (initialFormState\<lparr>localError := ''Canceled by user''\<rparr>, [])
   \<and> (\<exists>r. handleBiometrics langKey (Inr None) onSubmitReturns initialFormState = Inr r)"
proof -
  have r: "onSubmitReturns ''abc123'' = None" "\<forall>t. onSubmitReturns t \<noteq> Some Nullish"
    by (simp_all add: onSubmitReturns_def)
  have t: "onSubmitThrows ''abc123'' = Some (Error (Some ''Network error''))"
    by (simp add: onSubmitThrows_def)
  have o: "(Inr None :: getPassword_outcome) \<noteq> Inl Nullish"
    by simp
  show ?thesis
    using biometrics_fetch_outcomes
        [of "''abc123''" onSubmitReturns langKey initialFormState None "''Canceled by user''"
            "Inr None"]
      biometrics_fetch_outcomes
        [of "''abc123''" onSubmitThrows langKey initialFormState "Some ''Network error''"
            "''Canceled by user''" "Inr None"]
      r t o
    by (simp add: js_or_str_def)
qed

text \<open>
  C2 as stated fails twice. When the credential call is rejected with \<open>undefined\<close>, the
  \<open>catch\<close> cannot read the message: no local error is set and a \<open>TypeError\<close> leaves the
  handler. When the call returns the secret "abc123" and \<open>onSubmit\<close> throws an error
  object, \<open>onSubmit\<close> has been called once with the secret and the local error is set.
\<close>

theorem biometrics_fetch_counterexample:
  "handleBiometrics langKey (Inl Nullish) onSubmitReturns initialFormState
     = Inl (readMessageTypeError, [])
   \<and> handleBiometrics langKey (Inr (Some ''abc123'')) onSubmitThrows initialFormState
     = Inr (initialFormState\<lparr>localError := ''Network error''\<rparr>, [Call_onSubmit ''abc123''])
   \<and> localError (initialFormState\<lparr>localError := ''Network error''\<rparr>) \<noteq> localError initialFormState"
  by (simp add: handleBiometrics_def handleBiometrics_try_def truthy_def js_or_str_def
      onSubmitThrows_def initialFormState_def)

text \<open>
  C3. For every environment, props and state, and so for every auth configuration the
  state props are derived from and every value of the native-biometric-support probe, the
  rendered list holds exactly one of a PIN pad, a password text field and a biometric
  prompt: the PIN pad when native biometric support is there, otherwise the prompt when
  biometric authentication is enabled and the text field when it is not.
\<close>

theorem exactly_one_entry_ui:
  "length (pinPadsOf (PasswordForm lang env own sp st))
     + length (inputsOf (PasswordForm lang env own sp st))
     + length (verifyDivsOf (PasswordForm lang env own sp st)) = 1
   \<and> length (pinPadsOf (PasswordForm lang env own (mapStateToProps settings) st))
     + length (inputsOf (PasswordForm lang env own (mapStateToProps settings) st))
     + length (verifyDivsOf (PasswordForm lang env own (mapStateToProps settings) st)) = 1
   \<and> length (pinPadsOf (PasswordForm lang env own sp st))
       = (if getIsNativeBiometricAuthSupported env then 1 else 0)
   \<and> length (verifyDivsOf (PasswordForm lang env own sp st))
       = (if \<not> getIsNativeBiometricAuthSupported env \<and> isBiometricAuthEnabled sp then 1 else 0)
   \<and> length (inputsOf (PasswordForm lang env own sp st))
       = (if \<not> getIsNativeBiometricAuthSupported env \<and> \<not> isBiometricAuthEnabled sp then 1 else 0)"
  by (simp add: PasswordForm_def entry_ui_pin_pad entry_ui_password_field)

theorem exactly_one_entry_ui_witness:
  "length (pinPadsOf (PasswordForm langKey sampleEnv sampleOwnProps biometricStateProps sampleFormState)) = 0
   \<and> length (inputsOf (PasswordForm langKey sampleEnv sampleOwnProps biometricStateProps sampleFormState)) = 0
   \<and> length (verifyDivsOf (PasswordForm langKey sampleEnv sampleOwnProps biometricStateProps sampleFormState)) = 1
   \<and> length (inputsOf (PasswordForm langKey sampleEnv sampleOwnProps sampleStateProps sampleFormState)) = 1"
proof -
  have h: "\<not> getIsNativeBiometricAuthSupported sampleEnv"
    "isBiometricAuthEnabled biometricStateProps" "\<not> isBiometricAuthEnabled sampleStateProps"
    by (simp_all add: sampleEnv_def biometricStateProps_def sampleStateProps_def
        mapStateToProps_def)
  show ?thesis
    using exactly_one_entry_ui [of langKey sampleEnv sampleOwnProps biometricStateProps sampleFormState]
      exactly_one_entry_ui [of langKey sampleEnv sampleOwnProps sampleStateProps sampleFormState]
      h
    by simp
qed

text \<open>
  C7. In the text-field branch the submit button is rendered once, and it is disabled
  exactly when the password is empty; the effect registers the Enter-key listener, which
  runs \<open>handleSubmit\<close>, exactly when the password is not empty, that is when submitting
  is not disabled.
\<close>

theorem submit_disabled_iff_password_empty:
  assumes "\<not> getIsNativeBiometricAuthSupported env"
    and "\<not> isBiometricAuthEnabled sp"
  shows "map isDisabled (primaryButtonsOf (PasswordForm lang env own sp st)) = [password st = []]
    \<and> isSubmitDisabled st = (password st = [])
    \<and> (enterKeyEffect st = Some HandleSubmit) = (password st \<noteq> [])
    \<and> (enterKeyEffect st = None) = (password st = [])
    \<and> (enterKeyEffect st \<noteq> None) = (\<not> isSubmitDisabled st)"
  using assms
  by (simp add: PasswordForm_def primary_button_password_field isSubmitDisabled_def
      enterKeyEffect_def)

theorem submit_disabled_iff_password_empty_witness:
  "map isDisabled (primaryButtonsOf
      (PasswordForm langKey sampleEnv sampleOwnProps sampleStateProps sampleFormState)) = [False]
   \<and> enterKeyEffect sampleFormState = Some HandleSubmit
   \<and> map isDisabled (primaryButtonsOf
      (PasswordForm langKey sampleEnv sampleOwnProps sampleStateProps initialFormState)) = [True]
   \<and> enterKeyEffect initialFormState = None"
proof -
  have h1: "\<not> getIsNativeBiometricAuthSupported sampleEnv"
    by (simp add: sampleEnv_def)
  have h2: "\<not> isBiometricAuthEnabled sampleStateProps"
    by (simp add: sampleStateProps_def mapStateToProps_def)
  show ?thesis
    using submit_disabled_iff_password_empty [OF h1 h2, of langKey sampleOwnProps sampleFormState]
      submit_disabled_iff_password_empty [OF h1 h2, of langKey sampleOwnProps initialFormState]
    by (simp add: sampleFormState_def initialFormState_def)
qed

lemma autoTriggerRuns_steady:
  "\<forall>r \<in> set renders. isActive (fst r) \<and> isBiometricAuthEnabled (snd r) \<Longrightarrow>
   autoTriggerRuns env (Some (True, True)) renders = []"
  by (induction renders) (auto simp: useEffect_runs_def)

lemma autoTriggerRuns_delegated:
  "CAN_DELEGATE_BOTTOM_SHEET env \<Longrightarrow> concat (autoTriggerRuns env prev renders) = []"
  by (induction renders arbitrary: prev) (auto simp: autoTriggerEffect_def)

text \<open>
  C8. Take the renders of the form from the one at which it is mounted active, or becomes
  active, with biometric authentication enabled, for as long as it stays so. When
  \<open>CAN_DELEGATE_BOTTOM_SHEET\<close> does not hold, the effect starts exactly one asynchronous
  block over all these renders: a pause of the appear-animation duration, 300 ms, and
  then the biometric handler. When \<open>CAN_DELEGATE_BOTTOM_SHEET\<close> holds, no render starts
  one.
\<close>

theorem auto_trigger_once_unless_delegating:
  "(renders \<noteq> []
      \<and> (\<forall>r \<in> set renders. isActive (fst r) \<and> isBiometricAuthEnabled (snd r))
      \<and> prev \<noteq> Some (True, True)
      \<and> \<not> CAN_DELEGATE_BOTTOM_SHEET env
     \<longrightarrow> concat (autoTriggerRuns env prev renders)
           = [Pause APPEAR_ANIMATION_DURATION_MS, Invoke HandleBiometrics])
   \<and> APPEAR_ANIMATION_DURATION_MS = 300
   \<and> (CAN_DELEGATE_BOTTOM_SHEET env \<longrightarrow> concat (autoTriggerRuns env prev renders) = [])"
proof (intro conjI impI)
  assume a: "renders \<noteq> []
      \<and> (\<forall>r \<in> set renders. isActive (fst r) \<and> isBiometricAuthEnabled (snd r))
      \<and> prev \<noteq> Some (True, True)
      \<and> \<not> CAN_DELEGATE_BOTTOM_SHEET env"
  then obtain own sp rest where r: "renders = (own, sp) # rest"
    by (cases renders) auto
  with a have first: "isActive own" "isBiometricAuthEnabled sp"
    and rest: "\<forall>r \<in> set rest. isActive (fst r) \<and> isBiometricAuthEnabled (snd r)"
    by auto
  have runs: "useEffect_runs prev (True, True)"
    using a by (cases prev) (simp_all add: useEffect_runs_def)
  have "autoTriggerRuns env (Some (True, True)) rest = []"
    using rest by (rule autoTriggerRuns_steady)
  with a first runs
  show "concat (autoTriggerRuns env prev renders)
      = [Pause APPEAR_ANIMATION_DURATION_MS, Invoke HandleBiometrics]"
    by (simp add: r autoTriggerEffect_def)
next
  show "APPEAR_ANIMATION_DURATION_MS = 300"
    by (simp add: APPEAR_ANIMATION_DURATION_MS_def)
next
  assume "CAN_DELEGATE_BOTTOM_SHEET env"
  then show "concat (autoTriggerRuns env prev renders) = []"
    by (rule autoTriggerRuns_delegated)
qed

theorem auto_trigger_once_unless_delegating_witness:
  "concat (autoTriggerRuns sampleEnv None
      [(sampleOwnProps, biometricStateProps),
       (sampleOwnProps\<lparr>error := Some ''Wrong password''\<rparr>, biometricStateProps),
       (sampleOwnProps\<lparr>isLoading := True\<rparr>, biometricStateProps)])
     = [Pause 300, Invoke HandleBiometrics]
   \<and> concat (autoTriggerRuns (sampleEnv\<lparr>CAN_DELEGATE_BOTTOM_SHEET := True\<rparr>) None
      [(sampleOwnProps, biometricStateProps),
       (sampleOwnProps\<lparr>isActive := False\<rparr>, biometricStateProps),
       (sampleOwnProps, biometricStateProps)]) = []"
proof -
  have b: "isBiometricAuthEnabled biometricStateProps"
    by (simp add: biometricStateProps_def mapStateToProps_def)
  have a: "isActive sampleOwnProps" "\<not> CAN_DELEGATE_BOTTOM_SHEET sampleEnv"
    by (simp_all add: sampleOwnProps_def sampleEnv_def)
  show ?thesis
    using auto_trigger_once_unless_delegating
        [of "[(sampleOwnProps, biometricStateProps),
              (sampleOwnProps\<lparr>error := Some ''Wrong password''\<rparr>, biometricStateProps),
              (sampleOwnProps\<lparr>isLoading := True\<rparr>, biometricStateProps)]" None sampleEnv]
      auto_trigger_once_unless_delegating
        [of "[(sampleOwnProps, biometricStateProps),
              (sampleOwnProps\<lparr>isActive := False\<rparr>, biometricStateProps),
              (sampleOwnProps, biometricStateProps)]"
            None "sampleEnv\<lparr>CAN_DELEGATE_BOTTOM_SHEET := True\<rparr>"]
      a b
    by simp
qed


section \<open>Dashboard screen: properties\<close>

text \<open>
  C9. While the swipe listener is registered (a touch environment, the portrait layout
  mounted, a token focused), a swipe to the right dispatches \<open>selectToken\<close> with no slug
  and \<open>setActiveContentTab\<close> with the Assets tab, and returns true; a swipe to the left,
  and a swipe in any direction other than right, dispatches nothing and returns false.
\<close>

theorem swipe_right_closes_token:
  assumes "IS_TOUCH_ENV v" and "isPortrait v" and "portraitContainerMounted v"
    and "truthy (currentTokenSlug v)"
  shows "deliverSwipe v Swipe_Right
           = Some ([SelectToken None, SetActiveContentTab Assets], True)
    \<and> deliverSwipe v Swipe_Left = Some ([], False)
    \<and> (d \<noteq> Swipe_Right \<longrightarrow> deliverSwipe v d = Some ([], False))
    \<and> (fst (onSwipe d) = handleTokenCardClose) = (d = Swipe_Right)
    \<and> snd (onSwipe d) = (d = Swipe_Right)"
  using assms
  by (simp add: deliverSwipe_def swipeEffect_def onSwipe_def handleTokenCardClose_def)

theorem swipe_right_closes_token_witness:
  "deliverSwipe sampleMainView Swipe_Right
     = Some ([SelectToken None, SetActiveContentTab Assets], True)
   \<and> deliverSwipe sampleMainView Swipe_Left = Some ([], False)
   \<and> deliverSwipe sampleMainView Swipe_Up = Some ([], False)
   \<and> deliverSwipe sampleMainView Swipe_Down = Some ([], False)"
proof -
  have h: "IS_TOUCH_ENV sampleMainView" "isPortrait sampleMainView"
    "portraitContainerMounted sampleMainView" "truthy (currentTokenSlug sampleMainView)"
    by (simp_all add: sampleMainView_def truthy_def)
  show ?thesis
    using swipe_right_closes_token [OF h, of Swipe_Up] swipe_right_closes_token [OF h, of Swipe_Down]
    by simp
qed

end
